theory Spec2Isabelle
  imports Main "HOL-Library.Word" "HOL-Library.AList"
begin

unbundle bit_operations_syntax

section \<open>Platform: errors and byte buffers\<close>

text \<open>
  The library is JavaScript for Node. Every exception becomes a value: the language's own
  \<open>ReferenceError\<close> (an identifier that is declared nowhere) and \<open>TypeError\<close>, the
  \<open>RangeError\<close> of the \<open>Buffer\<close> methods, and \<open>Error\<close> for the \<open>throw new Error(..)\<close>
  of the library itself.
\<close>

datatype error =
    ReferenceError string
  | TypeError string
  | RangeError string
  | Error string

type_synonym byte = "8 word"
type_synonym buffer = "byte list"

text \<open>
  The methods of \<open>Buffer\<close> are those of Node 0.12, the release line with the generators
  that the library is written for: offsets and values are converted to numbers, a value
  outside the range of its type and a position outside the buffer throw, and \<open>copy\<close>
  cuts the range to what fits.
\<close>

text \<open>
  \<open>new Buffer(n)\<close>: a buffer of \<open>n\<close> bytes. Node leaves the content uninitialised; the
  model fills it with zeros and no theorem below reads a byte that was not written.
\<close>

definition new_Buffer :: "nat \<Rightarrow> buffer" where
  "new_Buffer n = replicate n 0"

text \<open>
  \<open>source.copy(target, target_start, start, end)\<close> of Node's \<open>Buffer\<close>: nothing is copied
  when the target position is past the target or the source range is empty, the range is cut
  to what fits in the target and to what the source holds, and the count of copied bytes is
  returned together with the updated target. A start past the source is a \<open>RangeError\<close>.
\<close>

definition buffer_copy ::
  "buffer \<Rightarrow> buffer \<Rightarrow> nat \<Rightarrow> nat \<Rightarrow> nat \<Rightarrow> error + (buffer \<times> nat)" where
  "buffer_copy source target target_start start end' =
     (if target_start \<ge> length target \<or> start \<ge> end' then Inr (target, 0)
      else if start > length source then Inl (RangeError ''out of range index'')
      else
        (let to_copy = min (min (end' - start) (length target - target_start))
                           (length source - start)
         in Inr (take target_start target @ take to_copy (drop start source)
                   @ drop (target_start + to_copy) target, to_copy)))"

text \<open>\<open>buff.readUInt8(offset)\<close>: the byte at \<open>offset\<close>, a \<open>RangeError\<close> past the end.\<close>

definition readUInt8 :: "buffer \<Rightarrow> nat \<Rightarrow> error + byte" where
  "readUInt8 buff offset =
     (if offset + 1 > length buff then Inl (RangeError ''index out of range'')
      else Inr (buff ! offset))"

text \<open>
  Sequencing of steps that may throw: the first exception ends the computation.
\<close>

definition andThen :: "error + 'a \<Rightarrow> ('a \<Rightarrow> error + 'b) \<Rightarrow> error + 'b" where
  "andThen m f = (case m of Inl e \<Rightarrow> Inl e | Inr x \<Rightarrow> f x)"

text \<open>
  Reading an identifier that no scope declares throws a \<open>ReferenceError\<close>. The source has
  several such identifiers; the model keeps the statements that follow them as they are
  written.
\<close>

definition undeclared :: "string \<Rightarrow> error + 'a" where
  "undeclared name = Inl (ReferenceError name)"

subsection \<open>Numbers and argument values\<close>

text \<open>
  A number is an integer or \<open>NaN\<close> (what arithmetic on \<open>undefined\<close> gives). The values
  that reach the builders as RPC arguments are \<open>undefined\<close>, numbers, booleans and
  functions (callbacks, named by a number).
\<close>

datatype jsnum = NaN | Num int

datatype jsval = JUndefined | JNumber jsnum | JBoolean bool | JFunction nat

fun truthy :: "jsval \<Rightarrow> bool" where
  "truthy JUndefined = False"
| "truthy (JNumber NaN) = False"
| "truthy (JNumber (Num n)) = (n \<noteq> 0)"
| "truthy (JBoolean b) = b"
| "truthy (JFunction f) = True"

text \<open>Unary plus, as the \<open>Buffer\<close> write methods apply it to the value.\<close>

fun to_number :: "jsval \<Rightarrow> jsnum" where
  "to_number JUndefined = NaN"
| "to_number (JNumber n) = n"
| "to_number (JBoolean b) = Num (if b then 1 else 0)"
| "to_number (JFunction f) = NaN"

text \<open>\<open>x >>> 0\<close>, as the write methods apply it to the offset.\<close>

fun uint32 :: "jsnum \<Rightarrow> nat" where
  "uint32 NaN = 0"
| "uint32 (Num v) = nat (v mod 2 ^ 32)"

fun js_plus :: "jsnum \<Rightarrow> int \<Rightarrow> jsnum" where
  "js_plus NaN k = NaN"
| "js_plus (Num v) k = Num (v + k)"

text \<open>The byte that \<open>buff[i] = value\<close> stores: the value modulo 256, and 0 for \<open>NaN\<close>.\<close>

fun byte_of :: "jsnum \<Rightarrow> byte" where
  "byte_of NaN = 0"
| "byte_of (Num v) = word_of_int v"

subsection \<open>Writing to a buffer\<close>

text \<open>
  \<open>checkInt\<close> of Node's \<open>Buffer\<close>: the value must lie between \<open>min\<close> and \<open>max\<close> (a
  comparison with \<open>NaN\<close> is false, so \<open>NaN\<close> passes) and the \<open>ext\<close> bytes at \<open>offset\<close>
  must lie in the buffer.
\<close>

definition checkInt :: "buffer \<Rightarrow> jsnum \<Rightarrow> nat \<Rightarrow> nat \<Rightarrow> int \<Rightarrow> int \<Rightarrow> error + unit" where
  "checkInt buff value offset ext max' min' =
     (if (case value of NaN \<Rightarrow> False | Num v \<Rightarrow> v > max' \<or> v < min')
      then Inl (TypeError ''value is out of bounds'')
      else if offset + ext > length buff then Inl (RangeError ''index out of range'')
      else Inr ())"

definition writeUInt8 :: "buffer \<Rightarrow> jsnum \<Rightarrow> nat \<Rightarrow> error + buffer" where
  "writeUInt8 buff value offset =
     andThen (checkInt buff value offset 1 0xff 0)
       (\<lambda>_. Inr (buff[offset := byte_of value]))"

fun shifted :: "jsnum \<Rightarrow> nat \<Rightarrow> jsnum" where
  "shifted NaN k = NaN"
| "shifted (Num v) k = Num (v div 2 ^ k)"

definition writeInt16BE :: "buffer \<Rightarrow> jsnum \<Rightarrow> nat \<Rightarrow> error + buffer" where
  "writeInt16BE buff value offset =
     andThen (checkInt buff value offset 2 0x7fff (- 0x8000))
       (\<lambda>_. Inr (buff[offset := byte_of (shifted value 8), offset + 1 := byte_of value]))"

definition writeInt32BE :: "buffer \<Rightarrow> jsnum \<Rightarrow> nat \<Rightarrow> error + buffer" where
  "writeInt32BE buff value offset =
     andThen (checkInt buff value offset 4 0x7fffffff (- 0x80000000))
       (\<lambda>_. Inr (buff[offset := byte_of (shifted value 24),
                       offset + 1 := byte_of (shifted value 16),
                       offset + 2 := byte_of (shifted value 8),
                       offset + 3 := byte_of value]))"

text \<open>
  \<open>buff.write(string, offset, length, 'ascii')\<close>: at most \<open>length\<close> characters and at most
  what is left of the buffer are written, one byte each; the count is returned.
\<close>

definition buffer_write :: "buffer \<Rightarrow> string \<Rightarrow> nat \<Rightarrow> nat \<Rightarrow> error + (buffer \<times> nat)" where
  "buffer_write buff str offset len =
     (if offset > length buff then Inl (RangeError ''attempt to write outside buffer bounds'')
      else
        (let n = min (length str) (min len (length buff - offset))
         in Inr (take offset buff @ map (\<lambda>c. (of_char c :: byte)) (take n str)
                   @ drop (offset + n) buff, n)))"

section \<open>util.js\<close>

text \<open>
  \<open>make_checksum(buff)\<close>: \<open>reduce\<close> without a start value adds the bytes up and throws a
  \<open>TypeError\<close> on an empty buffer; the sum is then cut to its low byte.
\<close>

definition make_checksum :: "buffer \<Rightarrow> error + int" where
  "make_checksum buff =
     (case buff of
        [] \<Rightarrow> Inl (TypeError ''Reduce of empty array with no initial value'')
      | a # rest \<Rightarrow>
          (let sum = foldl (\<lambda>a b. a + b) (uint a) (map uint rest)
           in Inr (sum mod 256)))"

subsection \<open>Objects of the registries\<close>

text \<open>
  The registries (\<open>_builders\<close>, \<open>_parsers\<close>, \<open>_rpc_send_methods\<close>, \<open>_rpc_recv_methods\<close>)
  and the tables of a namespace contribution are nested objects. A value is a primitive (a
  method name, or the \<open>is_rpc: true\<close> flag) or an object: a plain object, an array (its
  keys are the indices) or a function, which is an object too and may carry properties.
  The own enumerable properties are an association list in the order of \<open>for .. in\<close>.
  Properties inherited from the prototypes (\<open>toString\<close>, \<open>constructor\<close>, the \<open>length\<close> of
  a string) are not modelled: no namespace segment, RPC name or method name is one of them.
\<close>

datatype prim = PString string | PBoolean bool

datatype 'f jsobj = Prim prim | Obj "'f option" "(string \<times> 'f jsobj) list"

fun truthy_obj :: "'f jsobj \<Rightarrow> bool" where
  "truthy_obj (Prim (PString s)) = (s \<noteq> [])"
| "truthy_obj (Prim (PBoolean b)) = b"
| "truthy_obj (Obj f ps) = True"

fun get_prop :: "'f jsobj \<Rightarrow> string \<Rightarrow> 'f jsobj option" where
  "get_prop (Prim p) k = None"
| "get_prop (Obj f ps) k = map_of ps k"

text \<open>An assignment \<open>obj[k] = v\<close>; on a primitive it is dropped.\<close>

fun set_prop :: "'f jsobj \<Rightarrow> string \<Rightarrow> 'f jsobj \<Rightarrow> 'f jsobj" where
  "set_prop (Prim p) k v = Prim p"
| "set_prop (Obj f ps) k v = Obj f (AList.update k v ps)"

text \<open>
  \<open>isObject(obj)\<close> asks whether \<open>Object.keys(obj)\<close> throws: in the language of Node 0.12
  it does for a primitive and does not for objects, arrays and functions. In \<open>extend\<close>
  below the test \<open>isObject(src[prop])\<close> is the distinction of \<open>Obj\<close> from \<open>Prim\<close>.
\<close>

fun isObject :: "'f jsobj \<Rightarrow> bool" where
  "isObject (Prim p) = False"
| "isObject (Obj f ps) = True"

text \<open>
  \<open>extend(dest, src)\<close>, with \<open>src\<close> given by its properties; \<open>extend_prop\<close> is the body of
  the loop for one property. \<open>dest\<close> is changed in place; the model returns it. (The name
  carries a prime because every record brings a constant \<open>extend\<close> of its own.)
\<close>

fun extend' :: "'f jsobj \<Rightarrow> (string \<times> 'f jsobj) list \<Rightarrow> 'f jsobj"
and extend_prop :: "'f jsobj \<Rightarrow> string \<Rightarrow> 'f jsobj \<Rightarrow> 'f jsobj" where
  "extend' dest [] = dest"
| "extend' dest ((prop, v) # rest) = extend' (extend_prop dest prop v) rest"
| "extend_prop (Prim p) prop v = Prim p"
| "extend_prop (Obj f ps) prop v =
     (case map_of ps prop of
        None \<Rightarrow> Obj f (AList.update prop v ps)
      | Some d \<Rightarrow>
          (case v of
             Obj g src_ps \<Rightarrow> Obj f (AList.update prop (extend' d src_ps) ps)
           | Prim p \<Rightarrow> Obj f ps))"

text \<open>\<open>str.split('.')\<close>.\<close>

fun split_dots :: "string \<Rightarrow> string list" where
  "split_dots [] = [[]]"
| "split_dots (c # cs) =
     (if c = CHR ''.'' then [] # split_dots cs
      else (case split_dots cs of w # ws \<Rightarrow> (c # w) # ws | [] \<Rightarrow> [[c]]))"

text \<open>
  \<open>resolve_namespace_path(path_str, rpc, root_obj, err_msg)\<close>. The loop follows the
  segments and skips \<open>com\<close>; when the object is \<open>undefined\<close> at the start of a round, the
  message of the error reads \<open>namespace_list\<close>, which is not declared. After the loop a
  falsy result is answered by an \<open>Error\<close> object that is returned, not thrown.
\<close>

datatype 'f resolved = Value "'f jsobj" | ErrorObject string

fun resolve_loop :: "'f jsobj option \<Rightarrow> string list \<Rightarrow> error + 'f jsobj option" where
  "resolve_loop obj [] = Inr obj"
| "resolve_loop obj (seg # rest) =
     (case obj of
        None \<Rightarrow> undeclared ''namespace_list''
      | Some ob \<Rightarrow>
          if seg = ''com'' then resolve_loop obj rest
          else resolve_loop (get_prop ob seg) rest)"

definition resolve_namespace_path ::
  "string \<Rightarrow> string option \<Rightarrow> 'f jsobj \<Rightarrow> string \<Rightarrow> error + 'f resolved" where
  "resolve_namespace_path path_str rpc root_obj err_msg =
     (let path = split_dots path_str @
                   (case rpc of None \<Rightarrow> [] | Some r \<Rightarrow> if r = [] then [] else [r])
      in if path = [[]] then Inr (Value root_obj)
         else andThen (resolve_loop (Some root_obj) path)
                (\<lambda>obj. case obj of
                          None \<Rightarrow> Inr (ErrorObject (err_msg @ '' -- undefined last path element''))
                        | Some v \<Rightarrow>
                            if truthy_obj v then Inr (Value v)
                            else Inr (ErrorObject (err_msg @ '' -- undefined last path element''))))"

section \<open>packet.js: the typed values\<close>

text \<open>
  Each entry of \<open>data_types\<close> has a \<open>serialize(value, buff, ind)\<close> that writes the value
  into \<open>buff\<close> at \<open>ind\<close> and returns the number of bytes written; the model returns the
  updated buffer with that count. Types of variable width have a \<open>get_width(value)\<close>.
\<close>

definition Bool_width :: nat where "Bool_width = 1"
definition UInt8_width :: nat where "UInt8_width = 1"
definition Int16_width :: nat where "Int16_width = 2"
definition Int32_width :: nat where "Int32_width = 4"
definition FixedPointTwoPlaces_width :: nat where "FixedPointTwoPlaces_width = 4"
definition FixedPointThreePlaces_width :: nat where "FixedPointThreePlaces_width = 4"

definition ByteBuffer_get_width :: "buffer \<Rightarrow> nat" where
  "ByteBuffer_get_width val = length val + 1"

definition UInt8Array_get_width :: "int list \<Rightarrow> nat" where
  "UInt8Array_get_width val = length val + 1"

definition Int32Array_get_width :: "int list \<Rightarrow> nat" where
  "Int32Array_get_width val = length val * 4 + 1"

definition NullTerminatedString_get_width :: "string \<Rightarrow> nat" where
  "NullTerminatedString_get_width val = length val"

text \<open>\<open>buff[ind] = 1\<close> or \<open>0\<close>; an index outside the buffer stores nothing.\<close>

definition Bool_serialize :: "jsval \<Rightarrow> buffer \<Rightarrow> nat \<Rightarrow> error + (buffer \<times> nat)" where
  "Bool_serialize obj buff ind =
     (if truthy obj then Inr (buff[ind := 1], 1) else Inr (buff[ind := 0], 1))"

definition UInt8_serialize :: "jsval \<Rightarrow> buffer \<Rightarrow> nat \<Rightarrow> error + (buffer \<times> nat)" where
  "UInt8_serialize obj buff ind =
     andThen (writeUInt8 buff (to_number obj) ind) (\<lambda>b. Inr (b, 1))"

definition Int16_serialize :: "jsval \<Rightarrow> buffer \<Rightarrow> nat \<Rightarrow> error + (buffer \<times> nat)" where
  "Int16_serialize obj buff ind =
     andThen (writeInt16BE buff (to_number obj) ind) (\<lambda>b. Inr (b, 2))"

definition Int32_serialize :: "jsval \<Rightarrow> buffer \<Rightarrow> nat \<Rightarrow> error + (buffer \<times> nat)" where
  "Int32_serialize obj buff ind =
     andThen (writeInt32BE buff (to_number obj) ind) (\<lambda>b. Inr (b, 4))"

definition ByteBuffer_serialize :: "buffer \<Rightarrow> buffer \<Rightarrow> nat \<Rightarrow> error + (buffer \<times> nat)" where
  "ByteBuffer_serialize in_buff buff ind =
     andThen (writeUInt8 buff (Num (int (length in_buff))) ind)
       (\<lambda>b. andThen (buffer_copy in_buff b (ind + 1) 0 (length in_buff))
          (\<lambda>(b', _). Inr (b', length in_buff + 1)))"

text \<open>
  The parameter of the next two serializers is named \<open>input\<close>, but their bodies read
  \<open>ab\<close>, which is declared nowhere: \<open>var len = ab.length;\<close> is the first statement.
\<close>

definition UInt8Array_serialize :: "int list \<Rightarrow> buffer \<Rightarrow> nat \<Rightarrow> error + (buffer \<times> nat)" where
  "UInt8Array_serialize input buff ind =
     andThen (undeclared ''ab'')
       (\<lambda>ab :: int list.
          (let len = length ab in
           andThen (writeUInt8 buff (Num (int len)) ind)
             (\<lambda>b. andThen
                (foldl (\<lambda>acc i. andThen acc (\<lambda>b. writeUInt8 b (Num (ab ! i)) (ind + 1 + i)))
                   (Inr b) [0..<len])
                (\<lambda>b'. Inr (b', len + 1)))))"

definition Int32Array_serialize :: "int list \<Rightarrow> buffer \<Rightarrow> nat \<Rightarrow> error + (buffer \<times> nat)" where
  "Int32Array_serialize input buff ind =
     andThen (undeclared ''ab'')
       (\<lambda>ab :: int list.
          (let len = length ab in
           andThen (writeUInt8 buff (Num (int len)) ind)
             (\<lambda>b. andThen
                (foldl (\<lambda>acc i. andThen acc (\<lambda>b. writeInt32BE b (Num (ab ! i)) (ind + 1 + i * 4)))
                   (Inr b) [0..<len])
                (\<lambda>b'. Inr (b', len * 4 + 1)))))"

text \<open>
  The string is written with a null after it unless it ends in one already, cut to what is
  left of the buffer; the count written is returned.
\<close>

definition NullTerminatedString_serialize ::
  "string \<Rightarrow> buffer \<Rightarrow> nat \<Rightarrow> error + (buffer \<times> nat)" where
  "NullTerminatedString_serialize input_str buff ind =
     (if input_str \<noteq> [] \<and> last input_str = CHR 0x00
      then buffer_write buff input_str ind (length buff - ind)
      else buffer_write buff (input_str @ [CHR 0x00]) ind (length buff - ind))"

text \<open>
  The fixed-point serializers are declared as \<open>function (input_obj, ind)\<close> and read the
  identifier \<open>buff\<close>, which they do not declare. Their parameter \<open>ind\<close> receives the
  buffer of the caller, which as an offset would count as 0; the index of the caller is not
  received at all. The values are taken as integers here.
\<close>

definition FixedPointTwoPlaces_serialize :: "int \<Rightarrow> buffer \<Rightarrow> nat \<Rightarrow> error + (buffer \<times> nat)" where
  "FixedPointTwoPlaces_serialize input_obj ind unused =
     andThen (undeclared ''buff'')
       (\<lambda>buff. andThen (writeInt32BE buff (Num (input_obj * 100)) 0)
          (\<lambda>b. Inr (b, 4)))"

definition FixedPointThreePlaces_serialize :: "int \<Rightarrow> buffer \<Rightarrow> nat \<Rightarrow> error + (buffer \<times> nat)" where
  "FixedPointThreePlaces_serialize input_obj ind unused =
     andThen (undeclared ''buff'')
       (\<lambda>buff. andThen (writeInt32BE buff (Num (input_obj * 1000)) 0)
          (\<lambda>b. Inr (b, 4)))"

section \<open>packet.js: PacketByteContainer\<close>

text \<open>
  \<open>NullTerminatedString.deserialize(buff, ind)\<close> looks for the end of the string with
  \<open>buff[stop_ind] == '\0'\<close>. The left side is a number and the right side a string of
  one NUL character, which as a number is \<open>NaN\<close>: the comparison is false for every
  byte, so the loop runs to the end of the buffer.
\<close>

definition equals_nul_string :: "byte \<Rightarrow> bool" where
  "equals_nul_string b = False"

fun find_stop :: "buffer \<Rightarrow> nat \<Rightarrow> nat" where
  "find_stop [] stop_ind = stop_ind"
| "find_stop (b # bs) stop_ind =
     (if equals_nul_string b then stop_ind else find_stop bs (stop_ind + 1))"

text \<open>\<open>buff.toString('ascii', start, end)\<close>: one character for each byte, its top bit dropped.\<close>

definition ascii_slice :: "buffer \<Rightarrow> nat \<Rightarrow> nat \<Rightarrow> string" where
  "ascii_slice buff s e = map (\<lambda>b. char_of (unat b mod 128)) (take (e - s) (drop s buff))"

definition NullTerminatedString_deserialize :: "buffer \<Rightarrow> nat \<Rightarrow> string \<times> int" where
  "NullTerminatedString_deserialize buff ind =
     (let stop_ind = find_stop (drop ind buff) ind
      in (ascii_slice buff ind stop_ind, int stop_ind - int ind + 1))"

text \<open>
  A range of a container: \<open>new ByteRange(src, start, end)\<close> allocates \<open>end - start + 1\<close>
  bytes (none when that is \<open>NaN\<close> or not positive) and copies \<open>src\<close> from \<open>start\<close> to
  \<open>end + 1\<close> into them. A missing argument is \<open>undefined\<close>: as a number it is \<open>NaN\<close>,
  as the start of the copy it is 0. A negative end of the copy is a \<open>RangeError\<close>.
\<close>

record read_range =
  range_buff :: buffer
  range_src :: buffer
  rstart :: "jsnum option"
  rend :: "jsnum option"

definition num_of :: "jsnum option \<Rightarrow> jsnum" where
  "num_of a = (case a of None \<Rightarrow> NaN | Some n \<Rightarrow> n)"

fun js_minus :: "jsnum \<Rightarrow> jsnum \<Rightarrow> jsnum" where
  "js_minus (Num a) (Num b) = Num (a - b)"
| "js_minus a b = NaN"

fun buffer_size :: "jsnum \<Rightarrow> nat" where
  "buffer_size NaN = 0"
| "buffer_size (Num n) = (if n > 0 then nat n else 0)"

definition parse_index :: "jsnum option \<Rightarrow> nat \<Rightarrow> error + nat" where
  "parse_index a def =
     (case a of
        None \<Rightarrow> Inr def
      | Some NaN \<Rightarrow> Inr 0
      | Some (Num v) \<Rightarrow> if v < 0 then Inl (RangeError ''out of range index'') else Inr (nat v))"

definition ReadRange :: "buffer \<Rightarrow> jsnum option \<Rightarrow> jsnum option \<Rightarrow> error + read_range" where
  "ReadRange source s e =
     (let b = new_Buffer (buffer_size (js_plus (js_minus (num_of e) (num_of s)) 1))
      in andThen (parse_index s 0)
           (\<lambda>source_start. andThen (parse_index (Some (js_plus (num_of e) 1)) (length source))
              (\<lambda>source_end. andThen (buffer_copy source b 0 source_start source_end)
                 (\<lambda>(b', n). Inr \<lparr>range_buff = b', range_src = source, rstart = s, rend = e\<rparr>))))"

text \<open>
  \<open>container.bytes(start, end)\<close> tests \<open>start === end === null\<close>, which compares a
  boolean with \<open>null\<close> and is false for all arguments, so the range is always made from
  the arguments as they are. \<open>container.byte(start)\<close> is the range of one byte.
\<close>

definition bytes :: "buffer \<Rightarrow> jsnum option \<Rightarrow> jsnum option \<Rightarrow> error + read_range" where
  "bytes source s e = ReadRange source s e"

definition byte :: "buffer \<Rightarrow> jsnum \<Rightarrow> error + read_range" where
  "byte source s = ReadRange source (Some s) (Some s)"

text \<open>\<open>range.toString()\<close> with the count it stores in \<open>partial\<close>.\<close>

definition toString :: "read_range \<Rightarrow> string \<times> int" where
  "toString r = NullTerminatedString_deserialize (range_buff r) 0"

definition toRawString :: "read_range \<Rightarrow> string" where
  "toRawString r = ascii_slice (range_buff r) 0 (length (range_buff r))"

text \<open>
  \<open>range.toInt()\<close>: an unsigned byte, or a signed big-endian integer of two or four
  bytes; another length throws.
\<close>

definition toInt :: "read_range \<Rightarrow> error + int" where
  "toInt r =
     (case range_buff r of
        [a] \<Rightarrow> Inr (uint a)
      | [a, b] \<Rightarrow> Inr (sint (word_of_int (uint a * 256 + uint b) :: 16 word))
      | [a, b, c, d] \<Rightarrow>
          Inr (sint (word_of_int (((uint a * 256 + uint b) * 256 + uint c) * 256 + uint d) :: 32 word))
      | _ \<Rightarrow> Inl (Error ''Cannot read ints greater than 32 bits in size!''))"

text \<open>\<open>str.indexOf(c)\<close>: the first position of the character, or -1.\<close>

fun indexOf :: "string \<Rightarrow> char \<Rightarrow> int" where
  "indexOf [] c = - 1"
| "indexOf (x # xs) c = (if x = c then 0 else (let i = indexOf xs c in if i < 0 then - 1 else i + 1))"

section \<open>packet.js: PacketAssembler\<close>

text \<open>
  An instruction of the queue is a closure that calls one serializer with the value and the
  start of its range; the datatype names the serializer and keeps both.
\<close>

datatype instr =
    I_UInt8 jsval jsnum
  | I_Int16 jsval jsnum
  | I_Int32 jsval jsnum
  | I_String string jsnum
  | I_Buffer buffer jsnum
  | I_UInt8Array "int list" jsnum
  | I_Int32Array "int list" jsnum
  | I_Bool jsval jsnum

text \<open>
  The constructor \<open>PacketAssembler(offset)\<close> stores \<open>offset || 0\<close> in \<open>this.offset\<close>, but
  \<open>bytes\<close> and \<open>byte\<close> add the parameter \<open>offset\<close> itself, which is \<open>undefined\<close> when the
  constructor is called without an argument (\<open>offset_arg = None\<close>).
\<close>

record assembler =
  asm_length :: int
  instructions :: "instr list"
  offset :: nat
  offset_arg :: "nat option"

definition PacketAssembler :: "nat option \<Rightarrow> assembler" where
  "PacketAssembler off =
     \<lparr>asm_length = 0, instructions = [],
      offset = (case off of None \<Rightarrow> 0 | Some n \<Rightarrow> n), offset_arg = off\<rparr>"

record byterange =
  range_start :: jsnum
  range_end :: jsnum

text \<open>\<open>offset + start\<close>: \<open>NaN\<close> when \<open>offset\<close> is \<open>undefined\<close>.\<close>

definition offset_plus :: "nat option \<Rightarrow> int \<Rightarrow> jsnum" where
  "offset_plus off k = (case off of None \<Rightarrow> NaN | Some n \<Rightarrow> Num (int n + k))"

text \<open>
  \<open>new ByteRange(assembler, start, end)\<close> raises the length of the assembler to
  \<open>end + 1\<close> when that is larger; the comparison is false for \<open>NaN\<close>.
\<close>

definition ByteRange :: "assembler \<Rightarrow> jsnum \<Rightarrow> jsnum \<Rightarrow> assembler \<times> byterange" where
  "ByteRange dest s e =
     ((case e of
         NaN \<Rightarrow> dest
       | Num ev \<Rightarrow> if ev + 1 > asm_length dest then dest\<lparr>asm_length := ev + 1\<rparr> else dest),
      \<lparr>range_start = s, range_end = e\<rparr>)"

definition range_length :: "byterange \<Rightarrow> jsnum" where
  "range_length r =
     (case (range_end r, range_start r) of
        (Num e, Num s) \<Rightarrow> Num (e - s + 1)
      | _ \<Rightarrow> NaN)"

definition asm_bytes :: "assembler \<Rightarrow> int \<Rightarrow> int \<Rightarrow> assembler \<times> byterange" where
  "asm_bytes asm s e = ByteRange asm (offset_plus (offset_arg asm) s) (offset_plus (offset_arg asm) e)"

definition asm_byte :: "assembler \<Rightarrow> int \<Rightarrow> assembler \<times> byterange" where
  "asm_byte asm s = ByteRange asm (offset_plus (offset_arg asm) s) (offset_plus (offset_arg asm) s)"

definition push :: "instr \<Rightarrow> assembler \<Rightarrow> assembler" where
  "push i asm = asm\<lparr>instructions := instructions asm @ [i]\<rparr>"

text \<open>
  \<open>range.fromInt(val)\<close> chooses the serializer by the length of the range and throws for a
  length other than 1, 2 or 4.
\<close>

definition fromInt :: "byterange \<Rightarrow> jsval \<Rightarrow> assembler \<Rightarrow> error + assembler" where
  "fromInt r val asm =
     (if range_length r = Num 1 then Inr (push (I_UInt8 val (range_start r)) asm)
      else if range_length r = Num 2 then Inr (push (I_Int16 val (range_start r)) asm)
      else if range_length r = Num 4 then Inr (push (I_Int32 val (range_start r)) asm)
      else Inl (Error ''Cannot write ints greater than 32 bits in size!''))"

definition fromString :: "byterange \<Rightarrow> string \<Rightarrow> assembler \<Rightarrow> error + assembler" where
  "fromString r val asm = Inr (push (I_String val (range_start r)) asm)"

definition fromBuffer :: "byterange \<Rightarrow> buffer \<Rightarrow> assembler \<Rightarrow> error + assembler" where
  "fromBuffer r val asm = Inr (push (I_Buffer val (range_start r)) asm)"

definition fromUInt8Array :: "byterange \<Rightarrow> int list \<Rightarrow> assembler \<Rightarrow> error + assembler" where
  "fromUInt8Array r val asm = Inr (push (I_UInt8Array val (range_start r)) asm)"

definition fromInt32Array :: "byterange \<Rightarrow> int list \<Rightarrow> assembler \<Rightarrow> error + assembler" where
  "fromInt32Array r val asm = Inr (push (I_Int32Array val (range_start r)) asm)"

definition fromBool :: "byterange \<Rightarrow> jsval \<Rightarrow> assembler \<Rightarrow> error + assembler" where
  "fromBool r val asm = Inr (push (I_Bool val (range_start r)) asm)"

text \<open>
  A range of an assembler has the methods above and no other. \<open>build_packet\<close> calls
  \<open>fromRawUInt8Array\<close> on the range of the MAC address; the property is \<open>undefined\<close>, so
  the call is a \<open>TypeError\<close> and the assembler is left as it is.
\<close>

definition fromRawUInt8Array :: "byterange \<Rightarrow> jsnum list \<Rightarrow> assembler \<Rightarrow> error + assembler" where
  "fromRawUInt8Array r val asm = Inl (TypeError ''undefined is not a function'')"

text \<open>Running one instruction on the buffer; the count a serializer returns is dropped.\<close>

fun run_instr :: "instr \<Rightarrow> buffer \<Rightarrow> error + buffer" where
  "run_instr (I_UInt8 val s) buff = andThen (UInt8_serialize val buff (uint32 s)) (\<lambda>(b, n). Inr b)"
| "run_instr (I_Int16 val s) buff = andThen (Int16_serialize val buff (uint32 s)) (\<lambda>(b, n). Inr b)"
| "run_instr (I_Int32 val s) buff = andThen (Int32_serialize val buff (uint32 s)) (\<lambda>(b, n). Inr b)"
| "run_instr (I_String val s) buff =
     andThen (NullTerminatedString_serialize val buff (uint32 s)) (\<lambda>(b, n). Inr b)"
| "run_instr (I_Buffer val s) buff = andThen (ByteBuffer_serialize val buff (uint32 s)) (\<lambda>(b, n). Inr b)"
| "run_instr (I_UInt8Array val s) buff =
     andThen (UInt8Array_serialize val buff (uint32 s)) (\<lambda>(b, n). Inr b)"
| "run_instr (I_Int32Array val s) buff =
     andThen (Int32Array_serialize val buff (uint32 s)) (\<lambda>(b, n). Inr b)"
| "run_instr (I_Bool val s) buff = andThen (Bool_serialize val buff (uint32 s)) (\<lambda>(b, n). Inr b)"

text \<open>
  \<open>assemble()\<close> allocates a buffer of \<open>this.length\<close> bytes and then reads
  \<open>instructions.forEach\<close>: the identifier \<open>instructions\<close>, not the property
  \<open>this.instructions\<close>. No variable of that name is declared.
\<close>

definition assemble :: "assembler \<Rightarrow> error + buffer" where
  "assemble asm =
     (let buff = new_Buffer (nat (asm_length asm))
      in andThen (undeclared ''instructions'')
           (\<lambda>instrs. foldl (\<lambda>acc i. andThen acc (run_instr i)) (Inr buff) instrs))"

text \<open>\<open>append(assmblr)\<close>; the name carries a prime beside the \<open>append\<close> of lists.\<close>

definition append' :: "assembler \<Rightarrow> assembler \<Rightarrow> assembler" where
  "append' asm assmblr =
     (let a = asm\<lparr>instructions := instructions asm @ instructions assmblr\<rparr>
      in if asm_length a < asm_length assmblr then a\<lparr>asm_length := asm_length assmblr\<rparr> else a)"

section \<open>extra\_namespaces.js and the namespace modules\<close>

text \<open>
  The functions of the registries. A builder is \<open>function (bldr, ...args)\<close>, a parser is
  \<open>function (src)\<close>; the tables of methods hold no function.
\<close>

datatype builder = Builder_png | Builder_nms | Builder_rpc | Builder_args

datatype parser = Parser_png | Parser_nms | Parser_rpc | Parser_args

record BowlerNamespace =
  root :: string
  parsers :: "(string \<times> parser jsobj) list"
  builders :: "(string \<times> builder jsobj) list"
  send_methods :: "(string \<times> unit jsobj) list"
  recv_methods :: "(string \<times> unit jsobj) list"

definition Func :: "'f \<Rightarrow> 'f jsobj" where
  "Func f = Obj (Some f) []"

definition Str :: "string \<Rightarrow> 'f jsobj" where
  "Str s = Prim (PString s)"

definition bcs_core :: BowlerNamespace where
  "bcs_core =
     \<lparr>root = ''bcs.core'',
      parsers = [(''_png'', Func Parser_png), (''_nms'', Func Parser_nms)],
      builders = [(''_png'', Func Builder_png), (''_nms'', Func Builder_nms)],
      send_methods = [(''_png'', Str ''get''), (''_nms'', Str ''get'')],
      recv_methods = [(''_png'', Obj None [(''get'', Str ''post'')]),
                      (''_nms'', Obj None [(''get'', Str ''post'')])]\<rparr>"

definition bcs_rpc :: BowlerNamespace where
  "bcs_rpc =
     \<lparr>root = ''bcs.rpc'',
      parsers = [(''_rpc'', Func Parser_rpc), (''args'', Func Parser_args)],
      builders = [(''_rpc'', Func Builder_rpc), (''args'', Func Builder_args)],
      send_methods = [(''_rpc'', Str ''get''), (''args'', Str ''get'')],
      recv_methods = [(''_rpc'', Obj None [(''get'', Str ''post'')]),
                      (''args'', Obj None [(''get'', Str ''post'')])]\<rparr>"

text \<open>
  The number of declared parameters of a builder (\<open>builder.length\<close>), the assembler
  included.
\<close>

fun builder_length :: "builder \<Rightarrow> nat" where
  "builder_length Builder_png = 1"
| "builder_length Builder_nms = 2"
| "builder_length Builder_rpc = 3"
| "builder_length Builder_args = 3"

definition arg :: "jsval list \<Rightarrow> nat \<Rightarrow> jsval" where
  "arg args i = (if i < length args then args ! i else JUndefined)"

text \<open>
  The builders of \<open>bcs.core\<close> and \<open>bcs.rpc\<close>, called with the assembler and the
  arguments. Those of \<open>bcs.rpc\<close> read \<open>self\<close>, which their module does not declare.
\<close>

fun apply_builder :: "builder \<Rightarrow> assembler \<Rightarrow> jsval list \<Rightarrow> error + assembler" where
  "apply_builder Builder_png bldr args = Inr bldr"
| "apply_builder Builder_nms bldr args =
     (case asm_byte bldr 0 of (b, r) \<Rightarrow> fromInt r (arg args 0) b)"
| "apply_builder Builder_rpc bldr args =
     (case asm_byte bldr 0 of (b, r) \<Rightarrow>
        andThen (undeclared ''self'')
          (\<lambda>nsid. andThen (fromInt r nsid b)
             (\<lambda>b1. case asm_byte b1 1 of (b2, r2) \<Rightarrow> fromInt r2 (arg args 1) b2)))"
| "apply_builder Builder_args bldr args =
     (case asm_byte bldr 0 of (b, r) \<Rightarrow>
        andThen (undeclared ''self'')
          (\<lambda>nsid. andThen (fromInt r nsid b)
             (\<lambda>b1. case asm_byte b1 1 of (b2, r2) \<Rightarrow> fromInt r2 (arg args 1) b2)))"

text \<open>
  The parser of \<open>bcs.core._nms\<close>. \<open>nms_fields\<close> is the object it returns, as a function
  of the two variables \<open>raw_name\<close> and \<open>len\<close> that it reads from the whole body first.
\<close>

record nms_info =
  raw_str :: string
  name :: string
  version_str :: string
  num_namespaces :: int

definition nms_fields :: "buffer \<Rightarrow> string \<Rightarrow> int \<Rightarrow> error + nms_info" where
  "nms_fields source raw_name len =
     (let name_len_with_star = indexOf raw_name CHR '';''
      in andThen (bytes source (Some (Num 0)) (Some (Num (name_len_with_star - 3))))
           (\<lambda>name_range.
              andThen (bytes source (Some (Num (name_len_with_star + 1))) (Some (Num (len - 4))))
                (\<lambda>version_range.
                   andThen (byte source (Num len))
                     (\<lambda>count_range.
                        andThen (toInt count_range)
                          (\<lambda>count. Inr \<lparr>raw_str = raw_name, name = toRawString name_range,
                                         version_str = toRawString version_range,
                                         num_namespaces = count\<rparr>)))))"

definition parser_nms :: "buffer \<Rightarrow> error + nms_info" where
  "parser_nms source =
     andThen (bytes source None None)
       (\<lambda>all_bytes. case toString all_bytes of (raw_name, len) \<Rightarrow> nms_fields source raw_name len)"

subsection \<open>Importing a namespace\<close>

text \<open>
  \<open>_import_into_objs\<close> walks four variables down the four registries along the root of
  the namespace. Such a variable refers to an object inside the registry (its path from the
  top), or holds a primitive, or is \<open>undefined\<close>. A value that \<open>extend\<close> copies from the
  contribution is shared with it; the model follows the registry.
\<close>

datatype cursor = At "string list" | OnPrimitive | IsUndefined

fun lookup :: "'f jsobj \<Rightarrow> string list \<Rightarrow> 'f jsobj option" where
  "lookup v [] = Some v"
| "lookup v (k # ks) = (case get_prop v k of None \<Rightarrow> None | Some c \<Rightarrow> lookup c ks)"

fun update_at :: "string list \<Rightarrow> ('f jsobj \<Rightarrow> 'f jsobj) \<Rightarrow> 'f jsobj \<Rightarrow> 'f jsobj" where
  "update_at [] g v = g v"
| "update_at (k # ks) g (Prim p) = Prim p"
| "update_at (k # ks) g (Obj f ps) =
     (case map_of ps k of
        None \<Rightarrow> Obj f ps
      | Some c \<Rightarrow> Obj f (AList.update k (update_at ks g c) ps))"

text \<open>Reading \<open>x[seg]\<close> through the variable; on \<open>undefined\<close> it is a \<open>TypeError\<close>.\<close>

definition read_at :: "'f jsobj \<times> cursor \<Rightarrow> string \<Rightarrow> error + 'f jsobj option" where
  "read_at rc seg =
     (case snd rc of
        IsUndefined \<Rightarrow> Inl (TypeError ''Cannot read property of undefined'')
      | OnPrimitive \<Rightarrow> Inr None
      | At p \<Rightarrow> Inr (case lookup (fst rc) p of None \<Rightarrow> None | Some ob \<Rightarrow> get_prop ob seg))"

definition falsy_or_missing :: "'f jsobj option \<Rightarrow> bool" where
  "falsy_or_missing v = (case v of None \<Rightarrow> True | Some x \<Rightarrow> \<not> truthy_obj x)"

text \<open>\<open>if (!x[seg]) x[seg] = {};\<close>\<close>

definition create_segment :: "string \<Rightarrow> 'f jsobj \<times> cursor \<Rightarrow> error + 'f jsobj \<times> cursor" where
  "create_segment seg rc =
     andThen (read_at rc seg)
       (\<lambda>v. if falsy_or_missing v then
               (case snd rc of
                  At p \<Rightarrow> Inr (update_at p (\<lambda>ob. set_prop ob seg (Obj None [])) (fst rc), snd rc)
                | _ \<Rightarrow> Inr rc)
             else Inr rc)"

text \<open>\<open>x = x[seg];\<close>\<close>

definition enter_segment :: "string \<Rightarrow> 'f jsobj \<times> cursor \<Rightarrow> error + 'f jsobj \<times> cursor" where
  "enter_segment seg rc =
     andThen (read_at rc seg)
       (\<lambda>v. case v of
               None \<Rightarrow> Inr (fst rc, IsUndefined)
             | Some (Prim a) \<Rightarrow> Inr (fst rc, OnPrimitive)
             | Some (Obj f ps) \<Rightarrow>
                 (case snd rc of At p \<Rightarrow> Inr (fst rc, At (p @ [seg])) | _ \<Rightarrow> Inr rc))"

text \<open>
  \<open>bowler_util.extend(x, table)\<close> through the variable: nothing happens on a primitive, and
  on \<open>undefined\<close> the first property of the table throws.
\<close>

definition extend_at ::
  "(string \<times> 'f jsobj) list \<Rightarrow> 'f jsobj \<times> cursor \<Rightarrow> error + 'f jsobj \<times> cursor" where
  "extend_at src rc =
     (case snd rc of
        At p \<Rightarrow> Inr (update_at p (\<lambda>d. extend' d src) (fst rc), snd rc)
      | OnPrimitive \<Rightarrow> Inr rc
      | IsUndefined \<Rightarrow>
          if src = [] then Inr rc else Inl (TypeError ''Cannot read property of undefined''))"

record import_state =
  parsers_obj :: "parser jsobj \<times> cursor"
  builders_obj :: "builder jsobj \<times> cursor"
  send_methods_obj :: "unit jsobj \<times> cursor"
  recv_methods_obj :: "unit jsobj \<times> cursor"

definition on_parsers ::
  "(parser jsobj \<times> cursor \<Rightarrow> error + parser jsobj \<times> cursor) \<Rightarrow> import_state \<Rightarrow> error + import_state" where
  "on_parsers stmt st = andThen (stmt (parsers_obj st)) (\<lambda>rc. Inr (st\<lparr>parsers_obj := rc\<rparr>))"

definition on_builders ::
  "(builder jsobj \<times> cursor \<Rightarrow> error + builder jsobj \<times> cursor) \<Rightarrow> import_state \<Rightarrow> error + import_state" where
  "on_builders stmt st = andThen (stmt (builders_obj st)) (\<lambda>rc. Inr (st\<lparr>builders_obj := rc\<rparr>))"

definition on_send_methods ::
  "(unit jsobj \<times> cursor \<Rightarrow> error + unit jsobj \<times> cursor) \<Rightarrow> import_state \<Rightarrow> error + import_state" where
  "on_send_methods stmt st =
     andThen (stmt (send_methods_obj st)) (\<lambda>rc. Inr (st\<lparr>send_methods_obj := rc\<rparr>))"

definition on_recv_methods ::
  "(unit jsobj \<times> cursor \<Rightarrow> error + unit jsobj \<times> cursor) \<Rightarrow> import_state \<Rightarrow> error + import_state" where
  "on_recv_methods stmt st =
     andThen (stmt (recv_methods_obj st)) (\<lambda>rc. Inr (st\<lparr>recv_methods_obj := rc\<rparr>))"

text \<open>
  Statements in sequence on a state that is changed in place: an exception ends the
  sequence and leaves the state as it is then.
\<close>

fun run :: "('s \<Rightarrow> error + 's) list \<Rightarrow> 's \<Rightarrow> 's \<times> error option" where
  "run [] st = (st, None)"
| "run (c # cs) st = (case c st of Inl e \<Rightarrow> (st, Some e) | Inr st' \<Rightarrow> run cs st')"

text \<open>The eight statements of one round of the loop over the path.\<close>

definition path_round :: "string \<Rightarrow> (import_state \<Rightarrow> error + import_state) list" where
  "path_round seg =
     [on_parsers (create_segment seg), on_builders (create_segment seg),
      on_send_methods (create_segment seg), on_recv_methods (create_segment seg),
      on_parsers (enter_segment seg), on_builders (enter_segment seg),
      on_send_methods (enter_segment seg), on_recv_methods (enter_segment seg)]"

definition root_path :: "string \<Rightarrow> string list" where
  "root_path r = (let path = split_dots r in if path = [[]] then [] else path)"

definition import_into_objs ::
  "BowlerNamespace \<Rightarrow> parser jsobj \<Rightarrow> builder jsobj \<Rightarrow> unit jsobj \<Rightarrow> unit jsobj
     \<Rightarrow> import_state \<times> error option" where
  "import_into_objs ns parsers_o builders_o send_methods_o recv_methods_o =
     run (concat (map path_round (root_path (root ns))) @
          [on_parsers (extend_at (parsers ns)), on_builders (extend_at (builders ns)),
           on_send_methods (extend_at (send_methods ns)),
           on_recv_methods (extend_at (recv_methods ns))])
       \<lparr>parsers_obj = (parsers_o, At []), builders_obj = (builders_o, At []),
        send_methods_obj = (send_methods_o, At []), recv_methods_obj = (recv_methods_o, At [])\<rparr>"

section \<open>bowler\_device.js: constants\<close>

definition BOWLER_HEADER_SIZE :: nat where "BOWLER_HEADER_SIZE = 11"
definition BOWLER_VERSION :: nat where "BOWLER_VERSION = 3"
definition BOWLER_SIZE_BYTE :: nat where "BOWLER_SIZE_BYTE = 9"

text \<open>
  \<open>BOWLER_METHODS_HR\<close>: the wire code of a method name.
\<close>

definition BOWLER_METHODS_HR :: "string \<Rightarrow> int option" where
  "BOWLER_METHODS_HR =
     map_of [(''status'', 0x00), (''get'', 0x10), (''post'', 0x20), (''critical'', 0x30),
             (''async'', 0x40)]"

section \<open>bowler\_device.js: BowlerDevice\<close>

text \<open>
  The fields of a device that packet building and the import of namespaces use. The
  registries \<open>_parsers\<close>, \<open>_builders\<close>, \<open>_rpc_send_methods\<close> and \<open>_rpc_recv_methods\<close> are
  the fields \<open>d_parsers\<close> to \<open>d_rpc_recv_methods\<close>. \<open>_mac_address_raw\<close> is the string
  \<open>'broadcast'\<close>, an array of six numbers, or not set.
\<close>

datatype mac_raw = Unset | Broadcast | Address "jsnum list"

record bowler_device =
  supported_namespaces :: "(nat \<times> string) list"
  mac_address_raw :: mac_raw
  d_parsers :: "parser jsobj"
  d_builders :: "builder jsobj"
  d_rpc_send_methods :: "unit jsobj"
  d_rpc_recv_methods :: "unit jsobj"

text \<open>\<open>import_into(bowler_dev)\<close> and \<open>supports_namespace(ns)\<close> for a namespace object.\<close>

definition import_into :: "BowlerNamespace \<Rightarrow> bowler_device \<Rightarrow> bowler_device \<times> error option" where
  "import_into ns bowler_dev =
     (case import_into_objs ns (d_parsers bowler_dev) (d_builders bowler_dev)
             (d_rpc_send_methods bowler_dev) (d_rpc_recv_methods bowler_dev) of
        (st, err) \<Rightarrow>
          (bowler_dev\<lparr>d_parsers := fst (parsers_obj st), d_builders := fst (builders_obj st),
                      d_rpc_send_methods := fst (send_methods_obj st),
                      d_rpc_recv_methods := fst (recv_methods_obj st)\<rparr>, err))"

definition supports_namespace :: "bowler_device \<Rightarrow> BowlerNamespace \<Rightarrow> error + bowler_device" where
  "supports_namespace dev ns =
     (case import_into ns dev of (dev', None) \<Rightarrow> Inr dev' | (dev', Some e) \<Rightarrow> Inl e)"

text \<open>
  The constructor: namespace 0 is \<open>bcs.core\<close>, the MAC address is \<open>'broadcast'\<close>, the
  registries are empty and then take the namespaces \<open>bcs_core\<close> and \<open>bcs_rpc\<close>.
\<close>

definition BowlerDevice :: "error + bowler_device" where
  "BowlerDevice =
     andThen
       (supports_namespace
          \<lparr>supported_namespaces = [(0, ''bcs.core'')], mac_address_raw = Broadcast,
           d_parsers = Obj None [], d_builders = Obj None [],
           d_rpc_send_methods = Obj None [], d_rpc_recv_methods = Obj None []\<rparr>
          bcs_core)
       (\<lambda>dev. supports_namespace dev bcs_rpc)"

text \<open>
  The constructor throws nothing (lemma \<open>BowlerDevice_value\<close> below); the device it makes:
\<close>

definition new_BowlerDevice :: bowler_device where
  "new_BowlerDevice = projr BowlerDevice"

text \<open>
  The getter \<open>supported_namespaces_hr\<close> turns the table of namespaces around. Its values
  are the keys of the table, that is the ids as decimal strings, which the write methods
  turn back into numbers.
\<close>

definition supported_namespaces_hr :: "bowler_device \<Rightarrow> string \<Rightarrow> nat option" where
  "supported_namespaces_hr dev =
     foldl (\<lambda>hr (nsid, name). hr(name \<mapsto> nsid)) Map.empty (supported_namespaces dev)"

text \<open>
  The getter \<open>mac_address_bytes\<close>: an address that is not set counts as \<open>'broadcast'\<close>, and
  for \<open>'broadcast'\<close> the array of six zeros is returned (``use link-local instead''; the
  array of six 255 is commented out).
\<close>

definition mac_address_bytes :: "bowler_device \<Rightarrow> jsnum list" where
  "mac_address_bytes dev =
     (case mac_address_raw dev of
        Unset \<Rightarrow> [Num 0, Num 0, Num 0, Num 0, Num 0, Num 0]
      | Broadcast \<Rightarrow> [Num 0, Num 0, Num 0, Num 0, Num 0, Num 0]
      | Address a \<Rightarrow> a)"

text \<open>\<open>x = x || d\<close> for an argument that is a string or missing.\<close>

definition or_default :: "string option \<Rightarrow> string \<Rightarrow> string" where
  "or_default x d = (case x of None \<Rightarrow> d | Some s \<Rightarrow> if s = [] then d else s)"

definition number_or_undefined :: "int option \<Rightarrow> jsval" where
  "number_or_undefined v = (case v of None \<Rightarrow> JUndefined | Some n \<Rightarrow> JNumber (Num n))"

text \<open>
  The builder of the body: what \<open>resolve_namespace_path\<close> finds if it is a function,
  otherwise its property for the method, which must be truthy.
\<close>

definition select_builder ::
  "builder resolved \<Rightarrow> string \<Rightarrow> string \<Rightarrow> string \<Rightarrow> error + builder jsobj" where
  "select_builder body_builder method namespace command =
     (case body_builder of
        Value (Obj (Some f) ps) \<Rightarrow> Inr (Obj (Some f) ps)
      | Value v \<Rightarrow>
          (case get_prop v method of
             None \<Rightarrow> Inl (Error (''Could not find builder for the '' @ method @
                                 '' method for the RPC '' @ namespace @ ''#'' @ command))
           | Some b \<Rightarrow>
               if truthy_obj b then Inr b
               else Inl (Error (''Could not find builder for the '' @ method @
                                '' method for the RPC '' @ namespace @ ''#'' @ command)))
      | ErrorObject msg \<Rightarrow>
          Inl (Error (''Could not find builder for the '' @ method @
                      '' method for the RPC '' @ namespace @ ''#'' @ command)))"

definition call_builder :: "builder jsobj \<Rightarrow> assembler \<Rightarrow> jsval list \<Rightarrow> error + assembler" where
  "call_builder body_builder body_assembler args =
     (case body_builder of
        Obj (Some f) ps \<Rightarrow> apply_builder f body_assembler args
      | _ \<Rightarrow> Inl (TypeError ''apply is not a function''))"

text \<open>
  The body assembler after the body builder has run (the statements from
  \<open>resolve_namespace_path\<close> to \<open>body_builder.apply\<close>), for the namespace and method
  after their defaults.
\<close>

definition build_body ::
  "bowler_device \<Rightarrow> string \<Rightarrow> string \<Rightarrow> string \<Rightarrow> jsval list \<Rightarrow> error + assembler" where
  "build_body dev method namespace command args =
     andThen (resolve_namespace_path namespace (Some command) (d_builders dev)
                ''Error finding packet builder'')
       (\<lambda>found. andThen (select_builder found method namespace command)
          (\<lambda>body_builder.
             call_builder body_builder (PacketAssembler (Some (BOWLER_HEADER_SIZE + 4))) args))"

text \<open>The value written to byte 9: \<open>body_assembler.length+4\<close>.\<close>

definition size_field :: "assembler \<Rightarrow> jsval" where
  "size_field body_assembler = JNumber (Num (asm_length body_assembler + 4))"

text \<open>
  \<open>build_packet(method, namespace, command, ...args)\<close>. The header assembler is made by
  \<open>new packet.PacketAssembler()\<close>, without an offset.
\<close>

definition build_packet ::
  "bowler_device \<Rightarrow> string option \<Rightarrow> string option \<Rightarrow> string \<Rightarrow> jsval list \<Rightarrow> error + buffer" where
  "build_packet dev method0 namespace0 command args =
     (let builder = PacketAssembler None;
          namespace = or_default namespace0 ''bcs.core'';
          method = or_default method0 ''get''
      in
      case asm_byte builder 0 of (b0, r0) \<Rightarrow>
      andThen (fromInt r0 (JNumber (Num (int BOWLER_VERSION))) b0) (\<lambda>b1.
      case asm_bytes b1 1 6 of (b2, r1) \<Rightarrow>
      andThen (fromRawUInt8Array r1 (mac_address_bytes dev) b2) (\<lambda>b3.
      case asm_byte b3 7 of (b4, r7) \<Rightarrow>
      andThen (fromInt r7 (number_or_undefined (BOWLER_METHODS_HR method)) b4) (\<lambda>b5.
      case asm_byte b5 8 of (b6, r8) \<Rightarrow>
      andThen (fromInt r8 (number_or_undefined
                             (map_option int (supported_namespaces_hr dev namespace))) b6) (\<lambda>b7.
      andThen (build_body dev method namespace command args) (\<lambda>body_assembler.
      case asm_byte b7 9 of (b8, r9) \<Rightarrow>
      andThen (fromInt r9 (size_field body_assembler) b8) (\<lambda>b9.
      andThen (assemble b9) (\<lambda>header.
      andThen (make_checksum header) (\<lambda>checksum.
      case asm_byte b9 10 of (b10, r10) \<Rightarrow>
      andThen (fromInt r10 (JNumber (Num checksum)) b10) (\<lambda>b11.
      case asm_bytes b11 (int BOWLER_HEADER_SIZE) (int BOWLER_HEADER_SIZE + 3) of (b12, r11) \<Rightarrow>
      andThen (fromString r11 command b12) (\<lambda>b13.
      assemble (append' b13 body_assembler))))))))))))"


section \<open>command\_handler.js and the events of a device\<close>

text \<open>
  A device is an \<open>EventEmitter\<close>. The two listeners that an RPC call registers are
  closures around a continuation \<open>cb\<close>: one calls \<open>cb(formatted_packet)\<close>, the other
  \<open>cb(null, formatted_packet)\<close>. The state keeps the listeners in the order of their
  registration, and a log of what happened: a datagram given to \<open>send_datagram\<close>, a listener
  registered, a continuation called. The decoded packet is a value of any type.
\<close>

datatype listener = CallWithPacket jsval | CallWithNullAndPacket jsval

datatype 'p call = WithPacket 'p | WithNullAndPacket 'p

datatype 'p action = Sent buffer | Registered string listener | Called nat "'p call"

record 'p events =
  listeners :: "(string \<times> listener) list"
  log :: "'p action list"

definition no_events :: "'p events" where
  "no_events = \<lparr>listeners = [], log = []\<rparr>"

definition send_datagram :: "buffer \<Rightarrow> 'p events \<Rightarrow> 'p events" where
  "send_datagram datagram st = st\<lparr>log := log st @ [Sent datagram]\<rparr>"

text \<open>\<open>emitter.once(evt_name, listener)\<close>.\<close>

definition once :: "string \<Rightarrow> listener \<Rightarrow> 'p events \<Rightarrow> 'p events" where
  "once evt_name l st =
     st\<lparr>listeners := listeners st @ [(evt_name, l)], log := log st @ [Registered evt_name l]\<rparr>"





text \<open>
  What the closure made by \<open>make_rpc_caller(rpc_name, send_method, recv_method)\<close> holds:
  its three arguments, the builder \<open>ns_obj[ns_elem_name]\<close> and the namespace of the
  handler. For \<open>_png\<close> they are as \<open>populate_with\<close> takes them from the tables of
  \<open>bcs_core\<close>.
\<close>

record rpc_caller =
  rpc_name :: string
  send_method :: string
  recv_method :: string
  builder_of :: builder
  namespace_of :: string

definition png_caller :: rpc_caller where
  "png_caller =
     \<lparr>rpc_name = ''_png'', send_method = ''get'', recv_method = ''post'',
      builder_of = Builder_png, namespace_of = ''bcs.core''\<rparr>"

definition evt_name_of :: "rpc_caller \<Rightarrow> string" where
  "evt_name_of c = recv_method c @ '':'' @ namespace_of c @ ''#'' @ rpc_name c"

text \<open>
  What a call of the closure returns: nothing when it took a continuation, otherwise the
  function that waits for one.
\<close>

datatype returned = Nothing | Deferred string

text \<open>
  The call of the closure with its arguments; \<open>dev\<close> is \<open>this.bowler_device\<close>, the
  device that the handler was made for.
  An exception of \<open>build_packet\<close> ends the call before anything is sent or registered.
\<close>

definition rpc_call ::
  "bowler_device \<Rightarrow> rpc_caller \<Rightarrow> jsval list \<Rightarrow> 'p events \<Rightarrow> error + ('p events \<times> returned)" where
  "rpc_call dev c arguments st =
     (let has_cb = (length arguments \<ge> builder_length (builder_of c));
          args = (if has_cb then take (builder_length (builder_of c)) arguments else arguments)
      in andThen (build_packet dev (Some (send_method c)) (Some (namespace_of c))
                    (rpc_name c) args)
           (\<lambda>datagram.
              (let st1 = send_datagram datagram st
               in if has_cb
                  then Inr (once (evt_name_of c) (CallWithPacket (arg arguments (length args))) st1,
                            Nothing)
                  else Inr (st1, Deferred (evt_name_of c)))))"


section \<open>devices/nr\_dyio.js: the framing parser\<close>

text \<open>
  \<open>bowler_serial_parser()\<close> returns a closure over five variables; they are the state
  record. The closure is called once for each raw chunk of the serial port and emits whole
  packets through \<open>emitter.emit('data', ..)\<close>; the model returns the emitted buffers.
\<close>

record serial_parser =
  bowler_data :: "buffer option"
  incoming_data :: buffer
  curr_ind :: nat
  amt_left :: nat
  amt_left_to_read :: nat

definition bowler_serial_parser :: serial_parser where
  "bowler_serial_parser =
     \<lparr>bowler_data = None, incoming_data = replicate 255 0, curr_ind = 0,
      amt_left = 0, amt_left_to_read = 0\<rparr>"

text \<open>
  First statement of the loop body: with no packet under construction, the size byte is read
  at \<open>curr_ind + BOWLER_SIZE_BYTE\<close> and a packet buffer of header size plus that many bytes
  is allocated.
\<close>

definition start_packet :: "serial_parser \<Rightarrow> error + serial_parser" where
  "start_packet st =
     (case bowler_data st of
        Some _ \<Rightarrow> Inr st
      | None \<Rightarrow>
          (case readUInt8 (incoming_data st) (curr_ind st + BOWLER_SIZE_BYTE) of
             Inl e \<Rightarrow> Inl e
           | Inr size' \<Rightarrow>
               Inr (st\<lparr>amt_left_to_read := BOWLER_HEADER_SIZE + unat size',
                       bowler_data := Some (new_Buffer (BOWLER_HEADER_SIZE + unat size'))\<rparr>)))"

text \<open>
  Second statement: copy what is there, at most what the packet still needs, from
  \<open>incoming_data\<close> at \<open>curr_ind\<close> to the packet buffer, and move the three counters.
  The target position \<open>bowler_data.length - amt_left_to_read\<close> would throw if negative.
\<close>

definition read_into_packet :: "serial_parser \<Rightarrow> error + serial_parser" where
  "read_into_packet st =
     (case bowler_data st of
        None \<Rightarrow> Inr st
      | Some bd \<Rightarrow>
          if amt_left_to_read st > 0 \<and> amt_left st > 0 then
            (let amt_to_read = (if amt_left_to_read st > amt_left st then amt_left st
                                else amt_left_to_read st)
             in case (if amt_left_to_read st > length bd
                      then Inl (RangeError ''out of range index'')
                      else buffer_copy (incoming_data st) bd (length bd - amt_left_to_read st)
                             (curr_ind st) (curr_ind st + amt_to_read)) of
                  Inl e \<Rightarrow> Inl e
                | Inr (bd', _) \<Rightarrow>
                    Inr (st\<lparr>bowler_data := Some bd',
                            amt_left := amt_left st - amt_to_read,
                            curr_ind := curr_ind st + amt_to_read,
                            amt_left_to_read := amt_left_to_read st - amt_to_read\<rparr>))
          else Inr st)"

text \<open>Third statement: a packet that needs no more bytes is emitted and forgotten.\<close>

definition emit_packet :: "serial_parser \<Rightarrow> buffer list \<Rightarrow> serial_parser \<times> buffer list" where
  "emit_packet st out =
     (case bowler_data st of
        None \<Rightarrow> (st, out)
      | Some bd \<Rightarrow>
          if amt_left_to_read st = 0 \<and> length bd > 0
          then (st\<lparr>bowler_data := None\<rparr>, out @ [bd])
          else (st, out))"

text \<open>
  The \<open>while (amt_left > BOWLER_SIZE_BYTE)\<close> loop. The result is the state, the packets
  emitted so far and the exception that ended the loop, if any; \<open>None\<close> is a loop that
  never ends.
\<close>

partial_function (option) read_packets ::
  "serial_parser \<Rightarrow> buffer list \<Rightarrow> (serial_parser \<times> buffer list \<times> error option) option" where
  "read_packets st out =
     (if amt_left st > BOWLER_SIZE_BYTE then
        (case start_packet st of
           Inl e \<Rightarrow> Some (st, out, Some e)
         | Inr st1 \<Rightarrow>
             (case read_into_packet st1 of
                Inl e \<Rightarrow> Some (st1, out, Some e)
              | Inr st2 \<Rightarrow> read_packets (fst (emit_packet st2 out)) (snd (emit_packet st2 out))))
      else Some (st, out, None))"

declare read_packets.simps [code]

text \<open>After the loop the bytes not yet consumed are moved to the front of the buffer.\<close>

definition keep_leftover :: "serial_parser \<Rightarrow> error + serial_parser" where
  "keep_leftover st =
     (if amt_left st > 0 then
        (case buffer_copy (incoming_data st) (incoming_data st) 0 (curr_ind st)
                (curr_ind st + amt_left st) of
           Inl e \<Rightarrow> Inl e
         | Inr (inc', _) \<Rightarrow> Inr (st\<lparr>incoming_data := inc', curr_ind := amt_left st\<rparr>))
      else Inr (st\<lparr>curr_ind := 0\<rparr>))"

text \<open>One call of the closure with one raw chunk.\<close>

definition parser_call ::
  "serial_parser \<Rightarrow> buffer \<Rightarrow> (serial_parser \<times> buffer list \<times> error option) option" where
  "parser_call st buffer =
     (case buffer_copy buffer (incoming_data st) (curr_ind st) 0 (length buffer) of
        Inl e \<Rightarrow> Some (st, [], Some e)
      | Inr (inc', copied) \<Rightarrow>
          (case read_packets (st\<lparr>incoming_data := inc', amt_left := amt_left st + copied\<rparr>) [] of
             None \<Rightarrow> None
           | Some (st1, out, Some e) \<Rightarrow> Some (st1, out, Some e)
           | Some (st1, out, None) \<Rightarrow>
               (case keep_leftover st1 of
                  Inl e \<Rightarrow> Some (st1, out, Some e)
                | Inr st2 \<Rightarrow> Some (st2, out, None))))"

text \<open>The serial port calls the closure for the chunks in order; an exception stops it.\<close>

fun feed ::
  "serial_parser \<Rightarrow> buffer list \<Rightarrow> (serial_parser \<times> buffer list \<times> error option) option" where
  "feed st [] = Some (st, [], None)"
| "feed st (c # cs) =
     (case parser_call st c of
        None \<Rightarrow> None
      | Some (st1, out, Some e) \<Rightarrow> Some (st1, out, Some e)
      | Some (st1, out, None) \<Rightarrow>
          (case feed st1 cs of
             None \<Rightarrow> None
           | Some (st2, out2, err) \<Rightarrow> Some (st2, out @ out2, err)))"

definition emitted :: "(serial_parser \<times> buffer list \<times> error option) option \<Rightarrow> buffer list option" where
  "emitted r = map_option (\<lambda>(st, out, err). out) r"

text \<open>A well-formed ping packet: 11 header bytes with size byte 4, and the RPC name.\<close>

definition ping_packet :: buffer where
  "ping_packet = [0x03, 0, 0, 0, 0, 0, 0, 0x10, 0x00, 0x04, 0x17, 0x5F, 0x70, 0x6E, 0x67]"

section \<open>Predicates of the statements\<close>

text \<open>
  Two values are the same entry when they are the same primitive, or objects of the same
  kind (both plain, or the same function); the properties of an object may have grown.
  \<open>keeps a b\<close>: every truthy value that \<open>a\<close> holds at a path is still the same entry
  at that path in \<open>b\<close>.
\<close>

fun same_entry :: "'f jsobj \<Rightarrow> 'f jsobj \<Rightarrow> bool" where
  "same_entry (Prim a) v' = (v' = Prim a)"
| "same_entry (Obj f ps) v' = (case v' of Prim a \<Rightarrow> False | Obj f' ps' \<Rightarrow> f' = f)"

definition keeps :: "'f jsobj \<Rightarrow> 'f jsobj \<Rightarrow> bool" where
  "keeps a b = (\<forall>q v. lookup a q = Some v \<longrightarrow> truthy_obj v \<longrightarrow>
                   (\<exists>v'. lookup b q = Some v' \<and> same_entry v v'))"

definition keeps_all :: "import_state \<Rightarrow> import_state \<Rightarrow> bool" where
  "keeps_all st st' =
     (keeps (fst (parsers_obj st)) (fst (parsers_obj st')) \<and>
      keeps (fst (builders_obj st)) (fst (builders_obj st')) \<and>
      keeps (fst (send_methods_obj st)) (fst (send_methods_obj st')) \<and>
      keeps (fst (recv_methods_obj st)) (fst (recv_methods_obj st')))"


text \<open>
  A registry is open for a path when it is an object and the walk along the path from its
  top meets no truthy primitive: each segment is missing, or holds a falsy value, or holds
  an object that is open for the rest of the path.
\<close>

fun open_path :: "'f jsobj \<Rightarrow> string list \<Rightarrow> bool" where
  "open_path v [] = isObject v"
| "open_path v (seg # segs) =
     (case v of
        Prim a \<Rightarrow> False
      | Obj f ps \<Rightarrow>
          (case map_of ps seg of
             None \<Rightarrow> True
           | Some c \<Rightarrow> if truthy_obj c then open_path c segs else True))"

text \<open>
  The object that a variable of \<open>_import_into_objs\<close> refers to after the loop over the
  path, seen from the registry as it was before: what the registry held at the path if that
  was an object, otherwise a new empty object.
\<close>

definition namespace_object :: "'f jsobj \<Rightarrow> string list \<Rightarrow> 'f jsobj" where
  "namespace_object reg path =
     (case lookup reg path of Some (Obj f ps) \<Rightarrow> Obj f ps | _ \<Rightarrow> Obj None [])"



section \<open>Theorems\<close>

subsection \<open>The new device\<close>

lemma BowlerDevice_value:
  "BowlerDevice = Inr
     \<lparr>supported_namespaces = [(0, ''bcs.core'')], mac_address_raw = Broadcast,
      d_parsers = Obj None [(''bcs'', Obj None
          [(''core'', Obj None [(''_png'', Func Parser_png), (''_nms'', Func Parser_nms)]),
           (''rpc'', Obj None [(''_rpc'', Func Parser_rpc), (''args'', Func Parser_args)])])],
      d_builders = Obj None [(''bcs'', Obj None
          [(''core'', Obj None [(''_png'', Func Builder_png), (''_nms'', Func Builder_nms)]),
           (''rpc'', Obj None [(''_rpc'', Func Builder_rpc), (''args'', Func Builder_args)])])],
      d_rpc_send_methods = Obj None [(''bcs'', Obj None
          [(''core'', Obj None [(''_png'', Str ''get''), (''_nms'', Str ''get'')]),
           (''rpc'', Obj None [(''_rpc'', Str ''get''), (''args'', Str ''get'')])])],
      d_rpc_recv_methods = Obj None [(''bcs'', Obj None
          [(''core'', Obj None [(''_png'', Obj None [(''get'', Str ''post'')]),
                               (''_nms'', Obj None [(''get'', Str ''post'')])]),
           (''rpc'', Obj None [(''_rpc'', Obj None [(''get'', Str ''post'')]),
                              (''args'', Obj None [(''get'', Str ''post'')])])])]\<rparr>"
  by code_simp

lemma new_BowlerDevice_value:
  "new_BowlerDevice =
     \<lparr>supported_namespaces = [(0, ''bcs.core'')], mac_address_raw = Broadcast,
      d_parsers = Obj None [(''bcs'', Obj None
          [(''core'', Obj None [(''_png'', Func Parser_png), (''_nms'', Func Parser_nms)]),
           (''rpc'', Obj None [(''_rpc'', Func Parser_rpc), (''args'', Func Parser_args)])])],
      d_builders = Obj None [(''bcs'', Obj None
          [(''core'', Obj None [(''_png'', Func Builder_png), (''_nms'', Func Builder_nms)]),
           (''rpc'', Obj None [(''_rpc'', Func Builder_rpc), (''args'', Func Builder_args)])])],
      d_rpc_send_methods = Obj None [(''bcs'', Obj None
          [(''core'', Obj None [(''_png'', Str ''get''), (''_nms'', Str ''get'')]),
           (''rpc'', Obj None [(''_rpc'', Str ''get''), (''args'', Str ''get'')])])],
      d_rpc_recv_methods = Obj None [(''bcs'', Obj None
          [(''core'', Obj None [(''_png'', Obj None [(''get'', Str ''post'')]),
                               (''_nms'', Obj None [(''get'', Str ''post'')])]),
           (''rpc'', Obj None [(''_rpc'', Obj None [(''get'', Str ''post'')]),
                              (''args'', Obj None [(''get'', Str ''post'')])])])]\<rparr>"
  by (simp add: new_BowlerDevice_def BowlerDevice_value)


subsection \<open>Merging objects\<close>

lemma same_entry_refl [simp]: "same_entry v v"
  by (cases v) auto



lemma keeps_refl [simp]: "keeps a a"
  by (auto simp: keeps_def)




lemma extend_prim [simp]: "extend' (Prim a) src = Prim a"
  by (induction src) auto









lemma keeps_all_refl [simp]: "keeps_all st st"
  by (simp add: keeps_all_def)















lemma open_path_empty [simp]: "open_path (Obj None []) segs"
  by (cases segs) auto

lemma namespace_object_empty [simp]: "namespace_object (Obj None []) segs = Obj None []"
  by (cases segs) (auto simp: namespace_object_def)

lemma namespace_object_prim [simp]: "namespace_object (Prim a) segs = Obj None []"
  by (cases segs) (auto simp: namespace_object_def)


















subsection \<open>Events\<close>












subsection \<open>Building packets\<close>

lemma header_byte_nan:
  "asm_byte (PacketAssembler None) k =
     (PacketAssembler None, \<lparr>range_start = NaN, range_end = NaN\<rparr>)"
  by (simp add: asm_byte_def ByteRange_def PacketAssembler_def offset_plus_def)

lemma fromInt_nan:
  "fromInt \<lparr>range_start = NaN, range_end = NaN\<rparr> val asm =
     Inl (Error ''Cannot write ints greater than 32 bits in size!'')"
  by (simp add: fromInt_def range_length_def)

lemma build_packet_error:
  "build_packet dev method namespace command args =
     Inl (Error ''Cannot write ints greater than 32 bits in size!'')"
  by (simp add: build_packet_def header_byte_nan fromInt_nan andThen_def Let_def)

lemma assemble_throws: "assemble asm = Inl (ReferenceError ''instructions'')"
  by (simp add: assemble_def undeclared_def andThen_def Let_def)

lemma make_checksum_low_byte:
  "buff \<noteq> [] \<Longrightarrow> make_checksum buff = Inr (sum_list (map uint buff) mod 256)"
proof -
  assume "buff \<noteq> []"
  then obtain a rest where b: "buff = a # rest" by (cases buff) auto
  have "foldl (\<lambda>a b. a + b) x xs = x + sum_list xs" for x :: int and xs
    by (induction xs arbitrary: x) (simp_all add: add.assoc)
  then show ?thesis using b by (simp add: make_checksum_def)
qed

text \<open>
  C1 (as stated, refuted). On a new device, whose MAC address is \<open>'broadcast'\<close>, the call
  \<open>command_to.bcs.core._png()\<close> ends with the exception of \<open>build_packet\<close> and hands
  nothing to the transport; the MAC bytes of the device are six zeros, not six 0xFF; and the
  low byte of the sum of the ten header bytes of the claim, \<open>03 FF FF FF FF FF FF 10 00 04\<close>,
  is 0x11, not 0x0A.
\<close>

theorem png_not_sent_with_broadcast_FF:
  "rpc_call new_BowlerDevice png_caller [] (no_events :: unit events) =
     Inl (Error ''Cannot write ints greater than 32 bits in size!'') \<and>
   mac_address_bytes new_BowlerDevice = [Num 0, Num 0, Num 0, Num 0, Num 0, Num 0] \<and>
   make_checksum [0x03, 0xFF, 0xFF, 0xFF, 0xFF, 0xFF, 0xFF, 0x10, 0x00, 0x04] = Inr 0x11"
  by (simp add: rpc_call_def build_packet_error andThen_def Let_def mac_address_bytes_def
        new_BowlerDevice_value make_checksum_def)

text \<open>
  C1 (amended). For a device whose MAC address is \<open>'broadcast'\<close> the getter
  \<open>mac_address_bytes\<close> returns six numbers 0, not six 255; the wire code of \<open>get\<close> is 0x10;
  and \<open>make_checksum\<close> gives 0x17 for the ten bytes that are the version number 3, the six
  bytes of that address, and \<open>10 00 04\<close>.
\<close>

theorem broadcast_mac_is_link_local:
  "mac_address_raw dev = Broadcast \<Longrightarrow>
     mac_address_bytes dev = [Num 0, Num 0, Num 0, Num 0, Num 0, Num 0] \<and>
     BOWLER_METHODS_HR ''get'' = Some 0x10 \<and>
     make_checksum (word_of_int (int BOWLER_VERSION) # map byte_of (mac_address_bytes dev)
                      @ [0x10, 0x00, 0x04]) = Inr 0x17"
  by (simp add: mac_address_bytes_def make_checksum_def BOWLER_METHODS_HR_def BOWLER_VERSION_def)

theorem broadcast_mac_is_link_local_witness:
  "mac_address_raw new_BowlerDevice = Broadcast \<and>
   mac_address_bytes new_BowlerDevice = [Num 0, Num 0, Num 0, Num 0, Num 0, Num 0] \<and>
   make_checksum (word_of_int (int BOWLER_VERSION) # map byte_of (mac_address_bytes new_BowlerDevice)
                    @ [0x10, 0x00, 0x04]) = Inr 0x17"
proof -
  have h: "mac_address_raw new_BowlerDevice = Broadcast"
    by (simp add: new_BowlerDevice_value)
  from broadcast_mac_is_link_local [OF h] h show ?thesis by blast
qed

text \<open>
  C2. For \<open>build_packet('get', 'bcs.core', '_nms', 0)\<close> on a new device the body builder
  writes one body byte, at offset 15 of the packet, so the length of the body assembler is
  16 and the value for the size byte is 20, not 4 + 1; and the call ends with an exception
  instead of a packet.
\<close>

theorem nms_size_field_counts_the_header:
  "build_body new_BowlerDevice ''get'' ''bcs.core'' ''_nms'' [JNumber (Num 0)] =
     Inr \<lparr>asm_length = 16, instructions = [I_UInt8 (JNumber (Num 0)) (Num 15)],
          offset = 15, offset_arg = Some 15\<rparr> \<and>
   size_field \<lparr>asm_length = 16, instructions = [I_UInt8 (JNumber (Num 0)) (Num 15)],
               offset = 15, offset_arg = Some 15\<rparr> = JNumber (Num 20) \<and>
   build_packet new_BowlerDevice (Some ''get'') (Some ''bcs.core'') ''_nms'' [JNumber (Num 0)] =
     Inl (Error ''Cannot write ints greater than 32 bits in size!'')"
proof -
  have "build_body new_BowlerDevice ''get'' ''bcs.core'' ''_nms'' [JNumber (Num 0)] =
     Inr \<lparr>asm_length = 16, instructions = [I_UInt8 (JNumber (Num 0)) (Num 15)],
          offset = 15, offset_arg = Some 15\<rparr>"
    unfolding new_BowlerDevice_value by code_simp
  then show ?thesis by (simp add: size_field_def build_packet_error)
qed

text \<open>
  C3. No call of \<open>build_packet\<close> returns a packet: its first statement,
  \<open>builder.byte(0).fromInt(BOWLER_VERSION)\<close>, throws, because the range of the header
  assembler has the bounds \<open>NaN\<close>. Nor does any call of \<open>assemble()\<close> return the bytes
  that the checksum is to be taken of. So no checksum byte is ever produced.
\<close>

theorem build_packet_throws:
  "build_packet dev method namespace command args =
     Inl (Error ''Cannot write ints greater than 32 bits in size!'') \<and>
   assemble asm = Inl (ReferenceError ''instructions'')"
  by (simp add: build_packet_error assemble_throws)

text \<open>
  C10. A call of \<open>build_packet\<close> without a method and without a namespace builds no
  packet: like every call it ends with the exception of the first statement on the header
  assembler, which is neither of the two errors that the defaults are there to avoid. The
  same holds for empty strings and for a method name that is not known.
\<close>

theorem build_packet_fails_without_routing_arguments:
  "build_packet dev None None command args =
     Inl (Error ''Cannot write ints greater than 32 bits in size!'') \<and>
   build_packet dev (Some []) (Some []) command args =
     Inl (Error ''Cannot write ints greater than 32 bits in size!'') \<and>
   build_packet dev (Some ''foo'') namespace command args =
     Inl (Error ''Cannot write ints greater than 32 bits in size!'')"
  by (simp add: build_packet_error)

subsection \<open>Parsing the answer of \_nms\<close>

text \<open>
  C4. The parser of \<open>bcs.core._nms\<close> returns for no body. \<open>src.bytes()\<close> without
  arguments is a range of no bytes, not of the whole body, so \<open>raw_name\<close> is the empty
  string and \<open>len\<close> is 1; the range of the name is then \<open>src.bytes(0, -4)\<close>, whose copy
  throws a \<open>RangeError\<close>. In particular the parser throws on the body of the characters
  \<open>bcs.core;1.0.0\<close> followed by the bytes 0x00 and 0x01.
\<close>

theorem nms_parser_throws:
  "parser_nms source = Inl (RangeError ''out of range index'') \<and>
   parser_nms (map of_char ''bcs.core;1.0.0'' @ [0x00, 0x01]) =
     Inl (RangeError ''out of range index'')"
proof -
  have "parser_nms src = Inl (RangeError ''out of range index'')" for src
    by (simp add: parser_nms_def bytes_def ReadRange_def num_of_def parse_index_def
          buffer_copy_def new_Buffer_def andThen_def toString_def
          NullTerminatedString_deserialize_def ascii_slice_def nms_fields_def Let_def)
  then show ?thesis by simp
qed

subsection \<open>Calling an RPC\<close>

text \<open>
  C6. No call of an RPC handle returns a deferred or registers a listener: for every
  device, every RPC and every list of arguments, with a continuation or without, the call
  ends with the exception of \<open>build_packet\<close>; no datagram is sent before that.
\<close>

theorem rpc_call_throws:
  "rpc_call dev c arguments st = Inl (Error ''Cannot write ints greater than 32 bits in size!'')"
  by (simp add: rpc_call_def build_packet_error andThen_def Let_def)




subsection \<open>Framing and serializing\<close>


lemma framing_whole_packet: "emitted (feed bowler_serial_parser [ping_packet]) = Some [ping_packet]"
  by code_simp

lemma framing_coalesced:
  "emitted (feed bowler_serial_parser [ping_packet @ ping_packet]) = Some [ping_packet, ping_packet]"
  by code_simp

text \<open>
  C7. One ping packet that arrives in two chunks of 5 and 10 bytes is never emitted: the
  first call keeps its 5 bytes at the front and leaves \<open>curr_ind = 5\<close>, the second call
  appends the chunk there but also reads from there, so the size byte is taken from offset 14
  (the letter g, 103) and the parser waits for a packet of 114 bytes.
\<close>

theorem framing_split_packet_lost:
  "emitted (feed bowler_serial_parser [take 5 ping_packet, drop 5 ping_packet]) = Some []"
  by code_simp

lemma Int32_serialize_big_endian:
  "Int32_serialize (JNumber (Num (- 2))) (new_Buffer 4) 0 = Inr ([0xFF, 0xFF, 0xFF, 0xFE], 4)"
  by code_simp

text \<open>
  C8. Serializing the Int32Array \<open>[1, -2, 3]\<close> into a buffer of 13 bytes at offset 0 throws a
  \<open>ReferenceError\<close> for the identifier \<open>ab\<close> and writes nothing.
\<close>

theorem Int32Array_serialize_throws:
  "Int32Array_serialize [1, -2, 3] (new_Buffer 13) 0 = Inl (ReferenceError ''ab'')"
  by (simp add: Int32Array_serialize_def undeclared_def andThen_def)

end
